theory Spec2Isabelle
  imports Complex_Main "HOL-Library.Sublist"
begin

section \<open>Conventions of the model\<close>

text \<open>
  The analyser is one Python module, \<^verbatim>\<open>may13ien.py\<close>. Its functions are modelled one by
  one, under their own names.
  \<^item> A JSON object is a record whose fields are \<open>option\<close>s: \<open>None\<close> is an absent key, and
    \<^verbatim>\<open>d.get(k, default)\<close> reads \<open>None\<close> as the default. Fields carry the types the
    upstream services document (lamports and token amounts are integers, symbols and
    signatures are strings).
  \<^item> A Python \<^verbatim>\<open>int\<close> is an \<open>int\<close>. A Python \<^verbatim>\<open>float\<close> is a \<open>real\<close>: the rounding, overflow
    and underflow of double arithmetic are not modelled.
  \<^item> An exception is a value of type \<open>error\<close> and a function that can raise returns a sum,
    \<open>Inl\<close> carrying the exception.
  \<^item> The network is a parameter. One call of \<^verbatim>\<open>fetch_json\<close> is given the outcomes of its
    attempts as a function \<open>http\<close> of the attempt number.
  \<^item> \<^verbatim>\<open>print\<close> is not modelled; \<^verbatim>\<open>asyncio.sleep\<close> is recorded where the request client
    calls it.
\<close>

section \<open>Errors and effects\<close>

text \<open>
  The exceptions the analyser can raise, as values. \<open>Exception msg\<close> is the generic
  \<^verbatim>\<open>Exception(msg)\<close> that \<^verbatim>\<open>fetch_json\<close> raises; the others are the built-in
  exceptions of the interpreter at the places where the source can meet them.
\<close>

datatype error =
    Exception string
  | KeyError string
  | AttributeError
  | TypeError
  | ZeroDivisionError
  | EOFError

text \<open>
  What \<^verbatim>\<open>fetch_json\<close> does besides returning: the HTTP request of attempt number \<open>i\<close>,
  and \<^verbatim>\<open>asyncio.sleep(s)\<close>.
\<close>

datatype event = Request nat | Sleep nat

section \<open>The request client: \<^verbatim>\<open>fetch_json\<close>\<close>

text \<open>
  \<^verbatim>\<open>
  async def fetch_json(url, method="GET", json=None, retries=3, timeout=30):
      for attempt in range(retries):
          try:
              ... resp = await client.post/get ...; resp.raise_for_status()
              return resp.json()
          except Exception as e:
              if attempt == retries - 1:
                  raise Exception(f"Request failed: {e}")
              await asyncio.sleep(1)
  \<close>
  Attempt number \<open>i\<close> either raises an exception whose text is \<open>msg\<close> (\<open>http i = Inl msg\<close>:
  network error, status outside 2xx, body that is not JSON) or yields the decoded document
  (\<open>http i = Inr v\<close>). The result is \<open>Inl\<close> for a raised exception, \<open>Inr (Some v)\<close> for a
  returned document and \<open>Inr None\<close> when the loop ends without an attempt
  (\<^verbatim>\<open>range(retries)\<close> empty: the function falls off its end and returns \<^verbatim>\<open>None\<close>). The
  events are collected in call order.
\<close>

function fetch_json_loop ::
  "(nat \<Rightarrow> string + 'a) \<Rightarrow> int \<Rightarrow> int \<Rightarrow> event list \<Rightarrow> event list \<times> (error + 'a option)"
where
  "fetch_json_loop http retries attempt tr =
     (if attempt < retries then
        (case http (nat attempt) of
           Inr v \<Rightarrow> (tr @ [Request (nat attempt)], Inr (Some v))
         | Inl e \<Rightarrow>
             if attempt = retries - 1
             then (tr @ [Request (nat attempt)], Inl (Exception (''Request failed: '' @ e)))
             else fetch_json_loop http retries (attempt + 1)
                    (tr @ [Request (nat attempt), Sleep 1]))
      else (tr, Inr None))"
  by pat_completeness auto
termination
  by (relation "measure (\<lambda>(http, retries, attempt, tr). nat (retries - attempt))") auto

declare fetch_json_loop.simps [simp del]

definition fetch_json :: "(nat \<Rightarrow> string + 'a) \<Rightarrow> int \<Rightarrow> event list \<times> (error + 'a option)" where
  "fetch_json http retries = fetch_json_loop http retries 0 []"

text \<open>
  The trace of a call in which every one of \<open>n\<close> attempts fails, written out, and the
  attempt numbers of the requests in a trace.
\<close>

definition failing_trace :: "nat \<Rightarrow> event list" where
  "failing_trace n = concat (map (\<lambda>i. [Request i, Sleep 1]) [0..<n - 1]) @ [Request (n - 1)]"

definition requests :: "event list \<Rightarrow> nat list" where
  "requests tr = concat (map (\<lambda>ev. case ev of Request i \<Rightarrow> [i] | Sleep s \<Rightarrow> []) tr)"

section \<open>The transaction paginator: \<^verbatim>\<open>get_transactions\<close>\<close>

text \<open>
  A transaction summary of the history endpoint, with the two keys the paginator reads:
  \<^verbatim>\<open>signature\<close> and \<^verbatim>\<open>nativeTransfers\<close>, a list of objects with an \<^verbatim>\<open>amount\<close>.
\<close>

record transfer =
  amount :: "int option"

record tx =
  signature :: "string option"
  nativeTransfers :: "transfer list option"

text \<open>
  \<^verbatim>\<open>SMALL_TX_THRESHOLD = int(0.1 * 1e9)\<close>. The double product \<^verbatim>\<open>0.1 * 1e9\<close> is exactly
  \<^verbatim>\<open>100000000.0\<close>, so the constant is \<open>100000000\<close>.
\<close>

definition SMALL_TX_THRESHOLD :: int where
  "SMALL_TX_THRESHOLD = 100000000"

text \<open>
  \<^verbatim>\<open>lam = sum(abs(x.get("amount", 0)) for x in tx.get("nativeTransfers", []))\<close>
\<close>

definition lam :: "tx \<Rightarrow> int" where
  "lam t = sum_list (map (\<lambda>x. \<bar>case amount x of None \<Rightarrow> 0 | Some a \<Rightarrow> a\<bar>)
                      (case nativeTransfers t of None \<Rightarrow> [] | Some xs \<Rightarrow> xs))"

text \<open>
  The inner loop over one page, with its \<^verbatim>\<open>break\<close>:
  \<^verbatim>\<open>
  for tx in data:
      lam = ...
      if lam < SMALL_TX_THRESHOLD:
          small_count += 1
      else:
          normal_txs.append(tx)
          if len(normal_txs) >= limit:
              break
  \<close>
  After the \<^verbatim>\<open>break\<close> the rest of the page is not visited.
\<close>

fun classify_page :: "int \<Rightarrow> tx list \<Rightarrow> tx list \<Rightarrow> nat \<Rightarrow> tx list \<times> nat" where
  "classify_page limit [] normal_txs small_count = (normal_txs, small_count)"
| "classify_page limit (t # data) normal_txs small_count =
     (if lam t < SMALL_TX_THRESHOLD
      then classify_page limit data normal_txs (small_count + 1)
      else if limit \<le> int (length (normal_txs @ [t]))
           then (normal_txs @ [t], small_count)
           else classify_page limit data (normal_txs @ [t]) small_count)"

text \<open>
  The outer loop:
  \<^verbatim>\<open>
  while True:
      url = ...; if before: url += f"&before={before}"
      data = await fetch_json(url)
      if not data:
          break
      for tx in data: ...
      if len(normal_txs) >= limit or not (sig := data[-1].get("signature")):
          break
      before = sig
  return normal_txs, small_count
  \<close>
  The loop has no bound of its own: it runs for as long as the upstream keeps answering
  with pages that have a signed last transaction and too few normal transactions. The
  parameter \<open>upstream\<close> is the list of the answers the history endpoint gives to the
  successive calls of \<^verbatim>\<open>fetch_json\<close>, each one the attempt outcomes of that call. The result
  is \<open>None\<close> when the loop needs more answers than the list holds (the run is not over
  within these answers), and \<open>Some\<close> of the raised exception or of the returned pair
  otherwise. \<open>before\<close> is the cursor the next URL carries; the answers being given, it
  has no other use.
\<close>

fun get_transactions_loop ::
  "int \<Rightarrow> (nat \<Rightarrow> string + tx list) list \<Rightarrow> string option \<Rightarrow> tx list \<Rightarrow> nat
     \<Rightarrow> (error + tx list \<times> nat) option"
where
  "get_transactions_loop limit [] before normal_txs small_count = None"
| "get_transactions_loop limit (http # upstream) before normal_txs small_count =
     (case snd (fetch_json http 3) of
        Inl e \<Rightarrow> Some (Inl e)
      | Inr None \<Rightarrow> Some (Inr (normal_txs, small_count))
      | Inr (Some data) \<Rightarrow>
          if data = [] then Some (Inr (normal_txs, small_count))
          else
            (case classify_page limit data normal_txs small_count of
               (normal_txs', small_count') \<Rightarrow>
                 if limit \<le> int (length normal_txs')
                 then Some (Inr (normal_txs', small_count'))
                 else
                   (case signature (last data) of
                      None \<Rightarrow> Some (Inr (normal_txs', small_count'))
                    | Some sig \<Rightarrow>
                        if sig = [] then Some (Inr (normal_txs', small_count'))
                        else get_transactions_loop limit upstream (Some sig)
                               normal_txs' small_count')))"

definition get_transactions :: "(nat \<Rightarrow> string + tx list) list \<Rightarrow> int \<Rightarrow> (error + tx list \<times> nat) option" where
  "get_transactions upstream limit = get_transactions_loop limit upstream None [] 0"

text \<open>
  The spec's vocabulary. A transaction is small when the sum of the absolute values of its
  native transfers is strictly below the threshold. \<open>received upstream\<close> is the sequence
  of all transactions in the pages the upstream answers with, in order.
\<close>

definition is_small :: "tx \<Rightarrow> bool" where
  "is_small t = (lam t < SMALL_TX_THRESHOLD)"



section \<open>The staking balance: \<^verbatim>\<open>get_stake_accounts\<close>\<close>

text \<open>
  The answer of \<^verbatim>\<open>getProgramAccounts\<close>: \<^verbatim>\<open>{"result": [{"account": {"lamports": n}}, ...]}\<close>.
\<close>

record stake_account_info =
  lamports :: "int option"

record stake_account =
  account :: "stake_account_info option"

record stake_response =
  stake_result :: "stake_account list option"

text \<open>
  \<^verbatim>\<open>
  try:
      data = await fetch_json("https://api.mainnet-beta.solana.com", method="POST", json=payload)
      return sum(account.get("account", {}).get("lamports", 0)
                 for account in data.get("result", [])) / 1e9
  except Exception as e:
      print(...)
      return 0.0
  \<close>
  \<open>stake_lamports\<close> is the generator under \<^verbatim>\<open>sum\<close>, \<open>stake_try\<close> the body of the
  \<^verbatim>\<open>try\<close> (\<^verbatim>\<open>data.get\<close> on \<^verbatim>\<open>None\<close> raises \<^verbatim>\<open>AttributeError\<close>), and
  \<open>get_stake_accounts\<close> adds the handler.
\<close>

definition stake_lamports :: "stake_response \<Rightarrow> int list" where
  "stake_lamports data =
     map (\<lambda>a. case account a of None \<Rightarrow> 0
              | Some info \<Rightarrow> (case lamports info of None \<Rightarrow> 0 | Some l \<Rightarrow> l))
         (case stake_result data of None \<Rightarrow> [] | Some accounts \<Rightarrow> accounts)"

definition stake_try :: "(nat \<Rightarrow> string + stake_response) \<Rightarrow> error + real" where
  "stake_try http =
     (case snd (fetch_json http 3) of
        Inl e \<Rightarrow> Inl e
      | Inr None \<Rightarrow> Inl AttributeError
      | Inr (Some data) \<Rightarrow> Inr (real_of_int (sum_list (stake_lamports data)) / 1000000000))"

definition get_stake_accounts :: "(nat \<Rightarrow> string + stake_response) \<Rightarrow> error + real" where
  "get_stake_accounts http = (case stake_try http of Inl e \<Rightarrow> Inr 0 | Inr v \<Rightarrow> Inr v)"

section \<open>The asset profiles: \<^verbatim>\<open>fetch_token_profiles_das\<close>\<close>

text \<open>
  The answer of \<^verbatim>\<open>getAssetsByOwner\<close>:
  \<^verbatim>\<open>{"result": {"items": [{"token_info": {"symbol", "decimals", "balance"}}, ...],
                "nativeBalance": {"lamports": n}}}\<close>,
  and the profile the function builds, \<^verbatim>\<open>{"symbol": s, "balance": b, "txVolume": ""}\<close>.
\<close>

record token_info =
  ti_symbol :: "string option"
  ti_decimals :: "int option"
  ti_balance :: "int option"

record asset =
  asset_token_info :: "token_info option"

record native_balance =
  native_lamports :: "int option"

record das_result =
  items :: "asset list option"
  nativeBalance :: "native_balance option"

record das_response =
  das_result :: "das_result option"

record profile =
  symbol :: string
  balance :: real
  txVolume :: string

text \<open>
  \<^verbatim>\<open>10**decimals\<close>: an integer power for a non-negative exponent, the reciprocal for a
  negative one.
\<close>

definition pow10 :: "int \<Rightarrow> real" where
  "pow10 d = (if 0 \<le> d then 10 ^ nat d else 1 / 10 ^ nat (- d))"

definition empty_token_info :: token_info where
  "empty_token_info = \<lparr>ti_symbol = None, ti_decimals = None, ti_balance = None\<rparr>"

text \<open>
  \<^verbatim>\<open>
  for asset in result.get("items", []):
      token_info = asset.get("token_info", {})
      symbol = token_info.get("symbol", "Unknown")
      if symbol == "Unknown":
          continue
      decimals = token_info.get("decimals", 0)
      balance = float(token_info.get("balance", 0)) / 10**decimals
      if balance == 0:
          continue
      token_profiles.append({"symbol": symbol, "balance": balance, "txVolume": ""})
  \<close>
\<close>

fun token_loop :: "asset list \<Rightarrow> profile list \<Rightarrow> profile list" where
  "token_loop [] token_profiles = token_profiles"
| "token_loop (a # rest) token_profiles =
     (let info = (case asset_token_info a of None \<Rightarrow> empty_token_info | Some i \<Rightarrow> i);
          sym = (case ti_symbol info of None \<Rightarrow> ''Unknown'' | Some s \<Rightarrow> s)
      in if sym = ''Unknown'' then token_loop rest token_profiles
         else
           let decimals = (case ti_decimals info of None \<Rightarrow> 0 | Some d \<Rightarrow> d);
               bal = real_of_int (case ti_balance info of None \<Rightarrow> 0 | Some b \<Rightarrow> b) / pow10 decimals
           in if bal = 0 then token_loop rest token_profiles
              else token_loop rest
                     (token_profiles @ [\<lparr>symbol = sym, balance = bal, txVolume = ''''\<rparr>]))"

text \<open>
  \<^verbatim>\<open>
  data = await fetch_json(...)
  result = data.get("result", {})
  ... the loop over the items ...
  lamports = result.get("nativeBalance", {}).get("lamports", 0)
  if lamports:
      token_profiles.append({"symbol": "SOL", "balance": lamports / 1e9, "txVolume": ""})
  staked = await get_stake_accounts(address)
  if staked > 0:
      token_profiles.append({"symbol": "stakedSOL", "balance": staked, "txVolume": ""})
  return token_profiles
  \<close>
  \<^verbatim>\<open>if lamports:\<close> tests for a value other than zero.
\<close>

definition fetch_token_profiles_das ::
  "(nat \<Rightarrow> string + das_response) \<Rightarrow> (nat \<Rightarrow> string + stake_response) \<Rightarrow> error + profile list"
where
  "fetch_token_profiles_das assets_http stake_http =
     (case snd (fetch_json assets_http 3) of
        Inl e \<Rightarrow> Inl e
      | Inr None \<Rightarrow> Inl AttributeError
      | Inr (Some data) \<Rightarrow>
          let res = (case das_result data of
                       None \<Rightarrow> \<lparr>items = None, nativeBalance = None\<rparr> | Some r \<Rightarrow> r);
              token_profiles = token_loop (case items res of None \<Rightarrow> [] | Some xs \<Rightarrow> xs) [];
              lamps = (case nativeBalance res of None \<Rightarrow> 0
                       | Some nb \<Rightarrow> (case native_lamports nb of None \<Rightarrow> 0 | Some l \<Rightarrow> l));
              token_profiles' =
                (if lamps \<noteq> 0
                 then token_profiles @
                        [\<lparr>symbol = ''SOL'', balance = real_of_int lamps / 1000000000, txVolume = ''''\<rparr>]
                 else token_profiles)
          in (case get_stake_accounts stake_http of
                Inl e \<Rightarrow> Inl e
              | Inr staked \<Rightarrow>
                  if 0 < staked
                  then Inr (token_profiles' @
                              [\<lparr>symbol = ''stakedSOL'', balance = staked, txVolume = ''''\<rparr>])
                  else Inr token_profiles'))"

text \<open>
  The spec's vocabulary for the builder. \<open>token_profile\<close> is its rule for one asset: no
  entry when the symbol is absent or \<^verbatim>\<open>"Unknown"\<close>, no entry when the normalised balance is
  exactly zero, otherwise the entry with that symbol and balance. \<open>das_items\<close> and
  \<open>das_lamports\<close> read the asset list and the native balance of an answer,
  \<open>staking_balance\<close> is the number \<open>get_stake_accounts\<close> returns, and \<open>sol_entry\<close> and
  \<open>staked_entry\<close> are the two synthetic entries.
\<close>

definition token_profile :: "asset \<Rightarrow> profile option" where
  "token_profile a =
     (case asset_token_info a of
        None \<Rightarrow> None
      | Some info \<Rightarrow>
          (case ti_symbol info of
             None \<Rightarrow> None
           | Some s \<Rightarrow>
               if s = ''Unknown'' \<or>
                  real_of_int (case ti_balance info of None \<Rightarrow> 0 | Some b \<Rightarrow> b)
                    / pow10 (case ti_decimals info of None \<Rightarrow> 0 | Some d \<Rightarrow> d) = 0
               then None
               else Some \<lparr>symbol = s,
                          balance = real_of_int (case ti_balance info of None \<Rightarrow> 0 | Some b \<Rightarrow> b)
                                      / pow10 (case ti_decimals info of None \<Rightarrow> 0 | Some d \<Rightarrow> d),
                          txVolume = ''''\<rparr>))"

definition das_items :: "das_response \<Rightarrow> asset list" where
  "das_items data =
     (case das_result data of None \<Rightarrow> []
      | Some r \<Rightarrow> (case items r of None \<Rightarrow> [] | Some xs \<Rightarrow> xs))"

definition das_lamports :: "das_response \<Rightarrow> int" where
  "das_lamports data =
     (case das_result data of None \<Rightarrow> 0
      | Some r \<Rightarrow> (case nativeBalance r of None \<Rightarrow> 0
                   | Some nb \<Rightarrow> (case native_lamports nb of None \<Rightarrow> 0 | Some l \<Rightarrow> l)))"

definition staking_balance :: "(nat \<Rightarrow> string + stake_response) \<Rightarrow> real" where
  "staking_balance http = (case get_stake_accounts http of Inl e \<Rightarrow> 0 | Inr v \<Rightarrow> v)"

definition sol_entry :: "int \<Rightarrow> profile list" where
  "sol_entry lamps =
     (if lamps \<noteq> 0
      then [\<lparr>symbol = ''SOL'', balance = real_of_int lamps / 1000000000, txVolume = ''''\<rparr>]
      else [])"

definition staked_entry :: "real \<Rightarrow> profile list" where
  "staked_entry staked =
     (if 0 < staked then [\<lparr>symbol = ''stakedSOL'', balance = staked, txVolume = ''''\<rparr>] else [])"

section \<open>The statistics of \<^verbatim>\<open>main\<close>\<close>

text \<open>
  A parsed record of the detail endpoint, with the two keys \<^verbatim>\<open>main\<close> reads: \<^verbatim>\<open>type\<close>
  and \<^verbatim>\<open>tokenSymbol\<close>.
\<close>

record parsed_tx =
  tx_type :: "string option"
  tokenSymbol :: "string option"

text \<open>
  \<^verbatim>\<open>count = Counter(tx.get("type", "UNKNOWN") for tx in parsed)\<close>. A \<^verbatim>\<open>Counter\<close> is a
  dictionary, which keeps its keys in the order of their first insertion: an association
  list. \<open>counter_add\<close> is \<^verbatim>\<open>self[k] = self.get(k, 0) + 1\<close>, and \<open>counter_get\<close> is the
  lookup \<^verbatim>\<open>count[k]\<close>, which is \<open>0\<close> for a key that is not there.
\<close>

fun counter_add :: "string \<Rightarrow> (string \<times> nat) list \<Rightarrow> (string \<times> nat) list" where
  "counter_add k [] = [(k, 1)]"
| "counter_add k ((k', n) # c) = (if k = k' then (k', n + 1) # c else (k', n) # counter_add k c)"

definition Counter :: "string list \<Rightarrow> (string \<times> nat) list" where
  "Counter xs = foldl (\<lambda>c k. counter_add k c) [] xs"


definition type_or_unknown :: "parsed_tx \<Rightarrow> string" where
  "type_or_unknown t = (case tx_type t of None \<Rightarrow> ''UNKNOWN'' | Some ty \<Rightarrow> ty)"

text \<open>
  \<^verbatim>\<open>
  total = len(parsed)
  for profile in token_profiles:
      sym = profile["symbol"]
      n = sum(1 for tx in parsed if tx.get("tokenSymbol", "") == sym)
      profile["txVolume"] = f"{n/total:.2%}" if total else "0.00%"
  \<close>
  \<open>truediv\<close> is Python's \<^verbatim>\<open>/\<close>, which raises on a zero divisor. The text that the format
  \<^verbatim>\<open>.2%\<close> gives for a double is the parameter \<open>percent2\<close>.
\<close>

definition symbol_or_empty :: "parsed_tx \<Rightarrow> string" where
  "symbol_or_empty t = (case tokenSymbol t of None \<Rightarrow> [] | Some s \<Rightarrow> s)"

definition truediv :: "nat \<Rightarrow> nat \<Rightarrow> error + real" where
  "truediv n total_parsed = (if total_parsed = 0 then Inl ZeroDivisionError else Inr (real n / real total_parsed))"

fun annotate :: "(real \<Rightarrow> string) \<Rightarrow> parsed_tx list \<Rightarrow> profile list \<Rightarrow> error + profile list" where
  "annotate percent2 parsed [] = Inr []"
| "annotate percent2 parsed (p # token_profiles) =
     (let total_parsed = length parsed;
          sym = symbol p;
          n = length (filter (\<lambda>t. symbol_or_empty t = sym) parsed)
      in case (if total_parsed \<noteq> 0
               then (case truediv n total_parsed of Inl e \<Rightarrow> Inl e | Inr r \<Rightarrow> Inr (percent2 r))
               else Inr ''0.00%'') of
           Inl e \<Rightarrow> Inl e
         | Inr v \<Rightarrow>
             (case annotate percent2 parsed token_profiles of
                Inl e \<Rightarrow> Inl e
              | Inr ps \<Rightarrow> Inr (p\<lparr>txVolume := v\<rparr> # ps)))"

text \<open>
  \<^verbatim>\<open>sigs = [tx["signature"] for tx in txs][:100]\<close>: the subscript raises \<^verbatim>\<open>KeyError\<close> on a
  transaction without the key, for any transaction of \<^verbatim>\<open>txs\<close>.
\<close>

fun signatures :: "tx list \<Rightarrow> error + string list" where
  "signatures [] = Inr []"
| "signatures (t # txs) =
     (case signature t of
        None \<Rightarrow> Inl (KeyError ''signature'')
      | Some s \<Rightarrow> (case signatures txs of Inl e \<Rightarrow> Inl e | Inr ss \<Rightarrow> Inr (s # ss)))"

text \<open>
  \<^verbatim>\<open>
  parsed = []
  for i in range(0, len(sigs), 20):
      batch = sigs[i:i+20]
      data = await fetch_json(..., method="POST", json={"transactions": batch})
      parsed.extend(data)
      await asyncio.sleep(1)
  \<close>
  The detail endpoint is the parameter \<open>detail_http\<close>: the attempt outcomes of the request
  that carries a batch.
\<close>

function resolve_loop ::
  "(string list \<Rightarrow> nat \<Rightarrow> string + parsed_tx list) \<Rightarrow> string list \<Rightarrow> nat \<Rightarrow> parsed_tx list
     \<Rightarrow> error + parsed_tx list"
where
  "resolve_loop detail_http sigs i parsed =
     (if i < length sigs then
        (let batch = take 20 (drop i sigs)
         in case snd (fetch_json (detail_http batch) 3) of
              Inl e \<Rightarrow> Inl e
            | Inr None \<Rightarrow> Inl TypeError
            | Inr (Some data) \<Rightarrow> resolve_loop detail_http sigs (i + 20) (parsed @ data))
      else Inr parsed)"
  by pat_completeness auto
termination
  by (relation "measure (\<lambda>(detail_http, sigs, i, parsed). length sigs - i)") auto

declare resolve_loop.simps [simp del]

section \<open>The main loop\<close>

text \<open>
  The upstream services, per address: the answers of the history endpoint to the successive
  page requests, the asset endpoint, the stake endpoint, and the detail endpoint per batch.
\<close>

record upstream =
  history :: "string \<Rightarrow> (nat \<Rightarrow> string + tx list) list"
  assets :: "string \<Rightarrow> nat \<Rightarrow> string + das_response"
  stakes :: "string \<Rightarrow> nat \<Rightarrow> string + stake_response"
  details :: "string list \<Rightarrow> nat \<Rightarrow> string + parsed_tx list"

text \<open>
  What one pass of the loop prints as its summary: the annotated profiles,
  \<^verbatim>\<open>total\<close>, \<^verbatim>\<open>small_tx_count\<close> and \<^verbatim>\<open>dict(count)\<close>.
\<close>

record report =
  rep_profiles :: "profile list"
  rep_total :: nat
  rep_small :: nat
  rep_count :: "(string \<times> nat) list"

text \<open>
  One pass of the loop body, from \<^verbatim>\<open>get_transactions(addr)\<close> to the statistics
  (lines 161 to 184). No statement of it stands in a \<^verbatim>\<open>try\<close>.
\<close>

definition analyze :: "(real \<Rightarrow> string) \<Rightarrow> upstream \<Rightarrow> string \<Rightarrow> (error + report) option" where
  "analyze percent2 up addr =
     (case get_transactions (history up addr) 500 of
        None \<Rightarrow> None
      | Some (Inl e) \<Rightarrow> Some (Inl e)
      | Some (Inr (txs, small_tx_count)) \<Rightarrow>
          (case fetch_token_profiles_das (assets up addr) (stakes up addr) of
             Inl e \<Rightarrow> Some (Inl e)
           | Inr token_profiles \<Rightarrow>
               (case signatures txs of
                  Inl e \<Rightarrow> Some (Inl e)
                | Inr all_sigs \<Rightarrow>
                    (case resolve_loop (details up) (take 100 all_sigs) 0 [] of
                       Inl e \<Rightarrow> Some (Inl e)
                     | Inr parsed \<Rightarrow>
                         (case annotate percent2 parsed token_profiles of
                            Inl e \<Rightarrow> Some (Inl e)
                          | Inr profiles \<Rightarrow>
                              Some (Inr \<lparr>rep_profiles = profiles,
                                         rep_total = length parsed,
                                         rep_small = small_tx_count,
                                         rep_count = Counter (map type_or_unknown parsed)\<rparr>))))))"

text \<open>
  \<^verbatim>\<open>addr = input(...).strip()\<close> and \<^verbatim>\<open>addr.lower() in ("exit", "quit")\<close>, for ASCII text.
\<close>

definition is_space :: "char \<Rightarrow> bool" where
  "is_space c = (c \<in> {CHR '' '', CHR 0x09, CHR 0x0A, CHR 0x0B, CHR 0x0C, CHR 0x0D})"

definition strip :: "string \<Rightarrow> string" where
  "strip s = rev (dropWhile is_space (rev (dropWhile is_space s)))"

definition lower :: "string \<Rightarrow> string" where
  "lower s = map (\<lambda>c. case map_of (zip ''ABCDEFGHIJKLMNOPQRSTUVWXYZ''
                                        ''abcdefghijklmnopqrstuvwxyz'') c of
                       None \<Rightarrow> c | Some l \<Rightarrow> l) s"

text \<open>
  How the process ends: by the \<^verbatim>\<open>break\<close> of the loop, or by an exception that leaves
  \<^verbatim>\<open>main\<close>.
\<close>

datatype exit = Exited | Crashed error

text \<open>
  \<^verbatim>\<open>
  while True:
      addr = input("Please enter address or exit to quit: ").strip()
      if addr.lower() in ("exit", "quit"):
          break
      txs, small_tx_count = await get_transactions(addr)
      token_profiles = await fetch_token_profiles_das(addr)
      ... statistics, summary ...
      ... narrative generator, inside try/except Exception ...
      save = input("Save analysis to file? (y/n): ").strip().lower()
      ...
  \<close>
  The lines typed at the two prompts are the list \<open>inputs\<close>; \<^verbatim>\<open>input\<close> raises
  \<^verbatim>\<open>EOFError\<close> when none is left. The reports are the summaries printed so far. The call
  of the narrative generator absorbs its own exceptions and is left out, as is the writing
  of the file.
\<close>

fun main_loop ::
  "(real \<Rightarrow> string) \<Rightarrow> upstream \<Rightarrow> string list \<Rightarrow> report list \<Rightarrow> (report list \<times> exit) option"
where
  "main_loop percent2 up [] reports = Some (reports, Crashed EOFError)"
| "main_loop percent2 up (line # rest) reports =
     (let addr = strip line
      in if lower addr \<in> {''exit'', ''quit''} then Some (reports, Exited)
         else
           (case analyze percent2 up addr of
              None \<Rightarrow> None
            | Some (Inl e) \<Rightarrow> Some (reports, Crashed e)
            | Some (Inr rep) \<Rightarrow>
                (case rest of
                   [] \<Rightarrow> Some (reports @ [rep], Crashed EOFError)
                 | save # rest' \<Rightarrow> main_loop percent2 up rest' (reports @ [rep]))))"

definition main :: "(real \<Rightarrow> string) \<Rightarrow> upstream \<Rightarrow> string list \<Rightarrow> (report list \<times> exit) option" where
  "main percent2 up inputs = main_loop percent2 up inputs []"

section \<open>Concrete upstreams\<close>

text \<open>
  A transaction that moves 0.2 SOL and one whose two transfers move 0.05 SOL in all, and
  pages, answers and addresses built from them. Address \<open>A\<close> has a history endpoint that
  times out on every attempt, address \<open>B\<close> has no transaction, and every other address
  has one normal transaction.
\<close>

definition ex_big :: tx where
  "ex_big = \<lparr>signature = Some ''sigA'', nativeTransfers = Some [\<lparr>amount = Some 200000000\<rparr>]\<rparr>"

definition ex_tiny :: tx where
  "ex_tiny = \<lparr>signature = Some ''sigB'',
              nativeTransfers = Some [\<lparr>amount = Some 20000000\<rparr>, \<lparr>amount = Some (- 30000000)\<rparr>]\<rparr>"

definition ex_page_big_tiny :: "nat \<Rightarrow> string + tx list" where
  "ex_page_big_tiny i = Inr [ex_big, ex_tiny]"

definition ex_page_tiny_big :: "nat \<Rightarrow> string + tx list" where
  "ex_page_tiny_big i = Inr [ex_tiny, ex_big]"

definition ex_page_tiny_big_tiny :: "nat \<Rightarrow> string + tx list" where
  "ex_page_tiny_big_tiny i = Inr [ex_tiny, ex_big, ex_tiny]"

definition ex_page_big :: "nat \<Rightarrow> string + tx list" where
  "ex_page_big i = Inr [ex_big]"

definition ex_page_empty :: "nat \<Rightarrow> string + tx list" where
  "ex_page_empty i = Inr []"

definition ex_page_down :: "nat \<Rightarrow> string + tx list" where
  "ex_page_down i = Inl ''timeout''"

definition ex_stake_down :: "nat \<Rightarrow> string + stake_response" where
  "ex_stake_down i = Inl ''connection refused''"

definition ex_stake_none :: "nat \<Rightarrow> string + stake_response" where
  "ex_stake_none i = Inr \<lparr>stake_result = Some []\<rparr>"

definition ex_stake_two :: "nat \<Rightarrow> string + stake_response" where
  "ex_stake_two i =
     Inr \<lparr>stake_result = Some [\<lparr>account = Some \<lparr>lamports = Some 3000000000\<rparr>\<rparr>,
                                \<lparr>account = Some \<lparr>lamports = Some 1500000000\<rparr>\<rparr>]\<rparr>"

definition ex_usdc :: "int \<Rightarrow> asset" where
  "ex_usdc raw = \<lparr>asset_token_info =
                    Some \<lparr>ti_symbol = Some ''USDC'', ti_decimals = Some 6, ti_balance = Some raw\<rparr>\<rparr>"

definition ex_assets_dup :: "nat \<Rightarrow> string + das_response" where
  "ex_assets_dup i =
     Inr \<lparr>das_result = Some \<lparr>items = Some [ex_usdc 1500000, ex_usdc 2000000],
                              nativeBalance = None\<rparr>\<rparr>"

definition ex_assets_sol :: "nat \<Rightarrow> string + das_response" where
  "ex_assets_sol i =
     Inr \<lparr>das_result = Some \<lparr>items = Some [],
                              nativeBalance = Some \<lparr>native_lamports = Some 2500000000\<rparr>\<rparr>\<rparr>"

definition ex_assets_down :: "nat \<Rightarrow> string + das_response" where
  "ex_assets_down i = Inl ''timeout''"

definition ex_swap_sol :: parsed_tx where
  "ex_swap_sol = \<lparr>tx_type = Some ''SWAP'', tokenSymbol = Some ''SOL''\<rparr>"

definition ex_untyped :: parsed_tx where
  "ex_untyped = \<lparr>tx_type = None, tokenSymbol = None\<rparr>"

definition ex_sol_profile :: profile where
  "ex_sol_profile = \<lparr>symbol = ''SOL'', balance = 5 / 2, txVolume = ''''\<rparr>"

definition ex_details :: "string list \<Rightarrow> nat \<Rightarrow> string + parsed_tx list" where
  "ex_details batch i = Inr (map (\<lambda>s. ex_swap_sol) batch)"

definition ex_history :: "string \<Rightarrow> (nat \<Rightarrow> string + tx list) list" where
  "ex_history addr =
     (if addr = ''A'' then [ex_page_down]
      else if addr = ''B'' then [ex_page_empty]
      else [ex_page_big, ex_page_empty])"

definition ex_upstream :: upstream where
  "ex_upstream = \<lparr>history = ex_history, assets = (\<lambda>addr. ex_assets_sol),
                   stakes = (\<lambda>addr. ex_stake_none), details = ex_details\<rparr>"

section \<open>Properties of the request client\<close>

lemma fetch_json_loop_all_fail:
  assumes "\<And>i. i < nat retries \<Longrightarrow> http i = Inl (e i)"
    and "0 \<le> attempt" and "attempt < retries"
  shows "fetch_json_loop http retries attempt tr =
           (tr @ concat (map (\<lambda>i. [Request i, Sleep 1]) [nat attempt..<nat retries - 1])
               @ [Request (nat retries - 1)],
            Inl (Exception (''Request failed: '' @ e (nat retries - 1))))"
  using assms
proof (induction http retries attempt tr rule: fetch_json_loop.induct)
  case (1 http retries attempt tr)
  have h: "http (nat attempt) = Inl (e (nat attempt))"
    using 1 by simp
  show ?case
  proof (cases "attempt = retries - 1")
    case True
    then have "nat attempt = nat retries - 1" by simp
    then show ?thesis
      using True h 1(4) by (subst fetch_json_loop.simps) simp
  next
    case False
    then have lt: "attempt + 1 < retries" using 1(4) by simp
    have ih: "fetch_json_loop http retries (attempt + 1) (tr @ [Request (nat attempt), Sleep 1]) =
           ((tr @ [Request (nat attempt), Sleep 1])
               @ concat (map (\<lambda>i. [Request i, Sleep 1]) [nat (attempt + 1)..<nat retries - 1])
               @ [Request (nat retries - 1)],
            Inl (Exception (''Request failed: '' @ e (nat retries - 1))))"
      using 1(1)[OF 1(4) h False] 1(2) 1(3) lt by simp
    have suc: "nat (attempt + 1) = Suc (nat attempt)" using 1(3) by simp
    have lt': "nat attempt < nat retries - 1" using lt 1(3) by simp
    have up: "[nat attempt..<nat retries - 1] = nat attempt # [Suc (nat attempt)..<nat retries - 1]"
      using lt' by (simp add: upt_conv_Cons)
    show ?thesis
      using False h 1(4) ih suc up by (subst fetch_json_loop.simps) simp
  qed
qed

lemma requests_failing_trace: "0 < n \<Longrightarrow> requests (failing_trace n) = [0..<n]"
proof -
  have a: "\<And>m. requests (concat (map (\<lambda>i. [Request i, Sleep 1]) [0..<m])) = [0..<m]"
  proof -
    fix m show "requests (concat (map (\<lambda>i. [Request i, Sleep 1]) [0..<m])) = [0..<m]"
      by (induction m) (simp_all add: requests_def)
  qed
  assume "0 < n"
  then have "[0..<n] = [0..<n - 1] @ [n - 1]"
    by (cases n) simp_all
  moreover have "requests (failing_trace n) = [0..<n - 1] @ [n - 1]"
    using a[of "n - 1"] by (simp add: failing_trace_def requests_def)
  ultimately show ?thesis by simp
qed

lemma fetch_json_first_ok:
  "http 0 = Inr v \<Longrightarrow> 0 < retries \<Longrightarrow> fetch_json http retries = ([Request 0], Inr (Some v))"
  unfolding fetch_json_def by (subst fetch_json_loop.simps) simp

lemma fetch_json_three_failures:
  "http 0 = Inl a \<Longrightarrow> http 1 = Inl b \<Longrightarrow> http 2 = Inl c \<Longrightarrow>
     fetch_json http 3 =
       ([Request 0, Sleep 1, Request 1, Sleep 1, Request 2],
        Inl (Exception (''Request failed: '' @ c)))"
  unfolding fetch_json_def
  apply (subst fetch_json_loop.simps, simp)
  apply (subst fetch_json_loop.simps, simp)
  apply (subst fetch_json_loop.simps, simp)
  done

text \<open>
  C4. If every attempt fails and \<open>retries \<ge> 1\<close> (the contract of the client), the call
  makes exactly \<open>retries\<close> requests, numbered \<open>0 .. retries - 1\<close>, sleeps one second after
  each failed attempt but the last (so between any two consecutive attempts, and nowhere
  else), and raises an exception whose message is \<open>Request failed: \<close> followed by the text
  of the failure of the last attempt.
\<close>

theorem fetch_json_retry_exhaustion:
  assumes "1 \<le> retries"
    and "\<forall>i < nat retries. http i = Inl (e i)"
  shows "fetch_json http retries =
           (failing_trace (nat retries),
            Inl (Exception (''Request failed: '' @ e (nat retries - 1))))
         \<and> requests (failing_trace (nat retries)) = [0..<nat retries]
         \<and> length (requests (fst (fetch_json http retries))) = nat retries"
proof -
  have f: "fetch_json http retries =
           (failing_trace (nat retries),
            Inl (Exception (''Request failed: '' @ e (nat retries - 1))))"
    unfolding fetch_json_def failing_trace_def
    using fetch_json_loop_all_fail[of retries http e 0 "[]"] assms by simp
  have r: "requests (failing_trace (nat retries)) = [0..<nat retries]"
    using assms(1) by (intro requests_failing_trace) simp
  show ?thesis using f r by simp
qed

theorem fetch_json_retry_exhaustion_witness:
  "fetch_json (\<lambda>i. if i = 2 then Inl ''timeout'' else Inl ''refused'' :: string + nat) 3 =
     ([Request 0, Sleep 1, Request 1, Sleep 1, Request 2],
      Inl (Exception ''Request failed: timeout''))"
proof -
  have h1: "(1::int) \<le> 3" by simp
  have h2: "\<forall>i < nat 3. (\<lambda>i. if i = 2 then Inl ''timeout'' else Inl ''refused'' :: string + nat) i
              = Inl ((\<lambda>i. if i = 2 then ''timeout'' else ''refused'') i)"
    by simp
  have t: "failing_trace (nat 3) = [Request 0, Sleep 1, Request 1, Sleep 1, Request 2]"
    by (simp add: failing_trace_def upt_rec)
  show ?thesis
    using fetch_json_retry_exhaustion[OF h1 h2] t by simp
qed

section \<open>Properties of the paginator\<close>

subsection \<open>The concrete pages\<close>

lemma ex_small: "is_small ex_tiny" "\<not> is_small ex_big"
  by (simp_all add: is_small_def lam_def ex_tiny_def ex_big_def SMALL_TX_THRESHOLD_def)

lemma ex_lam: "lam ex_tiny < SMALL_TX_THRESHOLD" "\<not> lam ex_big < SMALL_TX_THRESHOLD"
  using ex_small by (simp_all add: is_small_def)

lemma ex_sig: "signature ex_big = Some ''sigA''" "signature ex_tiny = Some ''sigB''"
  by (simp_all add: ex_big_def ex_tiny_def)

lemma ex_pages:
  "snd (fetch_json ex_page_big_tiny 3) = Inr (Some [ex_big, ex_tiny])"
  "snd (fetch_json ex_page_tiny_big 3) = Inr (Some [ex_tiny, ex_big])"
  "snd (fetch_json ex_page_tiny_big_tiny 3) = Inr (Some [ex_tiny, ex_big, ex_tiny])"
  "snd (fetch_json ex_page_big 3) = Inr (Some [ex_big])"
  "snd (fetch_json ex_page_empty 3) = Inr (Some [])"
  by (simp_all add: fetch_json_first_ok ex_page_big_tiny_def ex_page_tiny_big_def
        ex_page_tiny_big_tiny_def ex_page_big_def ex_page_empty_def)

lemma ex_page_down_fails:
  "snd (fetch_json ex_page_down 3) = Inl (Exception ''Request failed: timeout'')"
  by (simp add: fetch_json_three_failures[of _ "''timeout''" "''timeout''" "''timeout''"]
        ex_page_down_def)

subsection \<open>The page on which the target is reached\<close>

lemma classify_page_reaches_target:
  assumes "\<not> is_small t"
    and "int (length n0) + int (length (filter (\<lambda>t. \<not> is_small t) pre)) + 1 = limit"
  shows "classify_page limit (pre @ t # post) n0 s0 =
           (n0 @ filter (\<lambda>t. \<not> is_small t) pre @ [t], s0 + length (filter is_small pre))"
  using assms(2)
proof (induction pre arbitrary: n0 s0)
  case Nil
  then show ?case using assms(1) by (simp add: is_small_def)
next
  case (Cons u pre)
  show ?case
  proof (cases "is_small u")
    case True
    then have "lam u < SMALL_TX_THRESHOLD" by (simp add: is_small_def)
    moreover have "int (length n0) + int (length (filter (\<lambda>t. \<not> is_small t) pre)) + 1 = limit"
      using Cons.prems True by simp
    ultimately show ?thesis using Cons.IH[of n0 "s0 + 1"] True by simp
  next
    case False
    then have nl: "\<not> lam u < SMALL_TX_THRESHOLD" by (simp add: is_small_def)
    have "int (length (n0 @ [u])) + int (length (filter (\<lambda>t. \<not> is_small t) pre)) + 1 = limit"
      using Cons.prems False by simp
    from Cons.IH[OF this, of s0]
    have ih: "classify_page limit (pre @ t # post) (n0 @ [u]) s0 =
           (n0 @ u # filter (\<lambda>t. \<not> is_small t) pre @ [t], s0 + length (filter is_small pre))"
      by simp
    have "\<not> limit \<le> int (length (n0 @ [u]))" using Cons.prems False by simp
    then show ?thesis using nl ih False by simp
  qed
qed

text \<open>
  C1, as the spec states it, fails: with target \<open>1\<close> and the page \<open>[ex_big, ex_tiny]\<close>
  the target is reached at the first transaction, the small transaction after it is never
  visited, and the small count returned is \<open>0\<close>, not the \<open>1\<close> small transaction of
  the page.
\<close>

theorem get_transactions_small_after_target_counterexample:
  "get_transactions [ex_page_big_tiny] 1 = Some (Inr ([ex_big], 0))
   \<and> length (filter is_small [ex_big, ex_tiny]) = 1"
  by (simp add: get_transactions_def ex_pages ex_lam ex_small)

text \<open>
  C1, amended. Let the loop stand at any state and let the next answer be a page
  \<open>pre @ t # post\<close> in which the normal transaction \<open>t\<close> is the one that brings the normal
  transactions to \<open>limit\<close>. Then the loop returns with exactly \<open>limit\<close> normal
  transactions, the earlier ones followed by the normal ones of \<open>pre\<close> and by \<open>t\<close>, and the
  small count has grown by the small transactions of \<open>pre\<close> only: nothing of \<open>post\<close>
  is counted, in either bucket.
\<close>

theorem get_transactions_target_reached:
  assumes "snd (fetch_json http 3) = Inr (Some (pre @ t # post))"
    and "\<not> is_small t"
    and "int (length normal_txs) + int (length (filter (\<lambda>t. \<not> is_small t) pre)) + 1 = limit"
  shows "get_transactions_loop limit (http # upstream) before normal_txs small_count =
           Some (Inr (normal_txs @ filter (\<lambda>t. \<not> is_small t) pre @ [t],
                      small_count + length (filter is_small pre)))
       \<and> int (length (normal_txs @ filter (\<lambda>t. \<not> is_small t) pre @ [t])) = limit"
proof -
  have c: "classify_page limit (pre @ t # post) normal_txs small_count =
           (normal_txs @ filter (\<lambda>t. \<not> is_small t) pre @ [t],
            small_count + length (filter is_small pre))"
    using assms(2,3) by (rule classify_page_reaches_target)
  have l: "int (length (normal_txs @ filter (\<lambda>t. \<not> is_small t) pre @ [t])) = limit"
    using assms(3) by simp
  show ?thesis using assms(1) c l by simp
qed

theorem get_transactions_target_reached_witness:
  "get_transactions_loop 1 [ex_page_tiny_big_tiny] None [] 0 = Some (Inr ([ex_big], 1))"
proof -
  have p: "snd (fetch_json ex_page_tiny_big_tiny 3) = Inr (Some ([ex_tiny] @ ex_big # [ex_tiny]))"
    by (simp add: ex_pages)
  have l: "int (length ([]::tx list)) + int (length (filter (\<lambda>t. \<not> is_small t) [ex_tiny])) + 1 = 1"
    by (simp add: ex_small)
  show ?thesis
    using get_transactions_target_reached[OF p ex_small(2) l, of "[]" None 0]
    by (simp add: ex_small)
qed

subsection \<open>The two buckets\<close>





subsection \<open>Never more than the target\<close>




section \<open>Properties of the staking balance\<close>

lemma get_stake_accounts_returns: "\<exists>v. get_stake_accounts http = Inr v"
  by (simp add: get_stake_accounts_def split: sum.split)

lemma sum_list_nonneg_int: "(\<And>x. x \<in> set xs \<Longrightarrow> (0::int) \<le> x) \<Longrightarrow> 0 \<le> sum_list xs"
  by (induction xs) auto

lemma ex_stake_fetch:
  "snd (fetch_json ex_stake_down 3) = Inl (Exception ''Request failed: connection refused'')"
  "snd (fetch_json ex_stake_none 3) = Inr (Some \<lparr>stake_result = Some []\<rparr>)"
  "snd (fetch_json ex_stake_two 3) =
     Inr (Some \<lparr>stake_result = Some [\<lparr>account = Some \<lparr>lamports = Some 3000000000\<rparr>\<rparr>,
                                      \<lparr>account = Some \<lparr>lamports = Some 1500000000\<rparr>\<rparr>]\<rparr>)"
  by (simp_all add: fetch_json_first_ok ex_stake_none_def ex_stake_two_def ex_stake_down_def
        fetch_json_three_failures[of _ "''connection refused''" "''connection refused''"
                                       "''connection refused''"])

text \<open>
  C5. \<open>get_stake_accounts\<close> always returns a number. When the request fails for good it
  returns \<open>0\<close>; when the request succeeds it returns the sum of the lamports of the
  accounts in the answer, divided by \<open>10^9\<close>, and that number is not negative when no
  account of the answer has a negative balance.
\<close>

theorem get_stake_accounts_best_effort:
  "(\<exists>v. get_stake_accounts http = Inr v)
   \<and> (\<forall>e. snd (fetch_json http 3) = Inl e \<longrightarrow> get_stake_accounts http = Inr 0)
   \<and> (\<forall>data. snd (fetch_json http 3) = Inr (Some data) \<longrightarrow>
          get_stake_accounts http = Inr (real_of_int (sum_list (stake_lamports data)) / 1000000000)
          \<and> ((\<forall>l \<in> set (stake_lamports data). 0 \<le> l) \<longrightarrow>
                (0::real) \<le> real_of_int (sum_list (stake_lamports data)) / 1000000000))"
proof (intro conjI allI impI)
  show "\<exists>v. get_stake_accounts http = Inr v" by (rule get_stake_accounts_returns)
next
  fix e assume "snd (fetch_json http 3) = Inl e"
  then show "get_stake_accounts http = Inr 0"
    by (simp add: get_stake_accounts_def stake_try_def)
next
  fix data assume "snd (fetch_json http 3) = Inr (Some data)"
  then show "get_stake_accounts http = Inr (real_of_int (sum_list (stake_lamports data)) / 1000000000)"
    by (simp add: get_stake_accounts_def stake_try_def)
next
  fix data assume "\<forall>l \<in> set (stake_lamports data). 0 \<le> l"
  then have "0 \<le> sum_list (stake_lamports data)" by (intro sum_list_nonneg_int) simp
  then show "(0::real) \<le> real_of_int (sum_list (stake_lamports data)) / 1000000000" by simp
qed

theorem get_stake_accounts_best_effort_witness:
  "get_stake_accounts ex_stake_down = Inr 0 \<and> get_stake_accounts ex_stake_two = Inr (9 / 2)
   \<and> (0::real) \<le> 9 / 2"
proof -
  have l: "stake_lamports \<lparr>stake_result = Some [\<lparr>account = Some \<lparr>lamports = Some 3000000000\<rparr>\<rparr>,
                                      \<lparr>account = Some \<lparr>lamports = Some 1500000000\<rparr>\<rparr>]\<rparr>
           = [3000000000, 1500000000]"
    by (simp add: stake_lamports_def)
  have a: "get_stake_accounts ex_stake_down = Inr 0"
    using get_stake_accounts_best_effort[of ex_stake_down] ex_stake_fetch(1) by blast
  have b: "get_stake_accounts ex_stake_two = Inr (9 / 2) \<and> (0::real) \<le> 9 / 2"
    using get_stake_accounts_best_effort[of ex_stake_two] ex_stake_fetch(3) l by simp
  show ?thesis using a b by simp
qed

section \<open>Properties of the asset profiles\<close>

lemma token_loop_eq: "token_loop xs acc = acc @ List.map_filter token_profile xs"
proof (induction xs arbitrary: acc)
  case Nil
  show ?case by (simp add: List.map_filter_simps)
next
  case (Cons a xs)
  show ?case
    by (cases "asset_token_info a")
       (auto simp: Cons.IH token_profile_def List.map_filter_simps Let_def empty_token_info_def
             split: option.splits)
qed

lemma get_stake_accounts_staking_balance: "get_stake_accounts http = Inr (staking_balance http)"
  by (simp add: staking_balance_def get_stake_accounts_def split: sum.split)

lemma fetch_token_profiles_das_eq:
  assumes "snd (fetch_json assets_http 3) = Inr (Some data)"
  shows "fetch_token_profiles_das assets_http stake_http =
           Inr (List.map_filter token_profile (das_items data)
                @ sol_entry (das_lamports data)
                @ staked_entry (staking_balance stake_http))"
  using assms
  by (cases "das_result data")
     (simp_all add: fetch_token_profiles_das_def token_loop_eq get_stake_accounts_staking_balance
         das_items_def das_lamports_def sol_entry_def staked_entry_def Let_def
         List.map_filter_simps)



lemma ex_assets_fetch:
  "snd (fetch_json ex_assets_dup 3) =
     Inr (Some \<lparr>das_result = Some \<lparr>items = Some [ex_usdc 1500000, ex_usdc 2000000],
                                    nativeBalance = None\<rparr>\<rparr>)"
  "snd (fetch_json ex_assets_sol 3) =
     Inr (Some \<lparr>das_result = Some \<lparr>items = Some [],
                              nativeBalance = Some \<lparr>native_lamports = Some 2500000000\<rparr>\<rparr>\<rparr>)"
  "snd (fetch_json ex_assets_down 3) = Inl (Exception ''Request failed: timeout'')"
  by (simp_all add: fetch_json_first_ok ex_assets_dup_def ex_assets_sol_def ex_assets_down_def
        fetch_json_three_failures[of _ "''timeout''" "''timeout''" "''timeout''"])

lemma ex_staking_balance:
  "staking_balance ex_stake_down = 0" "staking_balance ex_stake_none = 0"
  by (simp_all add: staking_balance_def get_stake_accounts_def stake_try_def ex_stake_fetch
        stake_lamports_def)

text \<open>
  C8. When the asset request succeeds, the list returned is the entries of the token assets
  in the order of the answer, then the \<open>SOL\<close> entry when the native balance is not zero
  (so when it is positive), then the \<open>stakedSOL\<close> entry when the staking balance is
  strictly positive. The witness is the scenario of the spec: a native balance of
  2,500,000,000 lamports, no token and no stake account give the single entry \<open>SOL\<close> with
  balance \<open>2.5\<close>.
\<close>

theorem fetch_token_profiles_das_order:
  assumes "snd (fetch_json assets_http 3) = Inr (Some data)"
  shows "fetch_token_profiles_das assets_http stake_http =
           Inr (List.map_filter token_profile (das_items data)
                @ (if das_lamports data \<noteq> 0
                   then [\<lparr>symbol = ''SOL'', balance = real_of_int (das_lamports data) / 1000000000,
                          txVolume = ''''\<rparr>]
                   else [])
                @ (if 0 < staking_balance stake_http
                   then [\<lparr>symbol = ''stakedSOL'', balance = staking_balance stake_http,
                          txVolume = ''''\<rparr>]
                   else []))"
  using fetch_token_profiles_das_eq[OF assms, of stake_http]
  by (simp add: sol_entry_def staked_entry_def)

theorem fetch_token_profiles_das_order_witness:
  "fetch_token_profiles_das ex_assets_sol ex_stake_none =
     Inr [\<lparr>symbol = ''SOL'', balance = 5 / 2, txVolume = ''''\<rparr>]"
  using fetch_token_profiles_das_order[OF ex_assets_fetch(2), of ex_stake_none]
  by (simp add: ex_staking_balance das_items_def das_lamports_def sol_entry_def staked_entry_def
        List.map_filter_simps)




section \<open>Properties of the statistics\<close>

subsection \<open>The type distribution\<close>







subsection \<open>The ratios\<close>

lemma annotate_empty:
  "annotate percent2 [] ps = Inr (map (\<lambda>p. p\<lparr>txVolume := ''0.00%''\<rparr>) ps)"
  by (induction ps) simp_all

lemma annotate_nonempty:
  "parsed \<noteq> [] \<Longrightarrow>
   annotate percent2 parsed ps =
     Inr (map (\<lambda>p. p\<lparr>txVolume :=
                 percent2 (real (length (filter (\<lambda>t. symbol_or_empty t = symbol p) parsed))
                            / real (length parsed))\<rparr>) ps)"
  by (induction ps) (simp_all add: truediv_def Let_def)

text \<open>
  C6. With no parsed record every profile gets the text \<open>0.00%\<close>. With at least one,
  each profile gets the text that the format \<^verbatim>\<open>.2%\<close> gives for the number of records
  whose token symbol, read as the empty string when absent, is the profile's symbol,
  divided by the number of records. The annotation never raises, \<^verbatim>\<open>ZeroDivisionError\<close>
  included.
\<close>

theorem annotate_ratios:
  "(length parsed = 0 \<longrightarrow>
      annotate percent2 parsed ps = Inr (map (\<lambda>p. p\<lparr>txVolume := ''0.00%''\<rparr>) ps))
   \<and> (0 < length parsed \<longrightarrow>
      annotate percent2 parsed ps =
        Inr (map (\<lambda>p. p\<lparr>txVolume :=
                 percent2 (real (length (filter (\<lambda>t. symbol_or_empty t = symbol p) parsed))
                            / real (length parsed))\<rparr>) ps))
   \<and> (\<forall>e. annotate percent2 parsed ps \<noteq> Inl e)"
proof (cases "parsed = []")
  case True
  then show ?thesis by (simp add: annotate_empty)
next
  case False
  then show ?thesis by (simp add: annotate_nonempty)
qed

theorem annotate_ratios_witness:
  "\<forall>percent2.
     annotate percent2 [] [ex_sol_profile] = Inr [ex_sol_profile\<lparr>txVolume := ''0.00%''\<rparr>]
     \<and> annotate percent2 [ex_swap_sol, ex_untyped] [ex_sol_profile]
         = Inr [ex_sol_profile\<lparr>txVolume := percent2 (1 / 2)\<rparr>]"
proof
  fix percent2 :: "real \<Rightarrow> string"
  have a: "annotate percent2 [] [ex_sol_profile] = Inr [ex_sol_profile\<lparr>txVolume := ''0.00%''\<rparr>]"
    using annotate_ratios[of "[]" percent2 "[ex_sol_profile]"] by simp
  have b: "annotate percent2 [ex_swap_sol, ex_untyped] [ex_sol_profile]
         = Inr [ex_sol_profile\<lparr>txVolume := percent2 (1 / 2)\<rparr>]"
    using annotate_ratios[of "[ex_swap_sol, ex_untyped]" percent2 "[ex_sol_profile]"]
    by (simp add: symbol_or_empty_def ex_swap_sol_def ex_untyped_def ex_sol_profile_def)
  show "annotate percent2 [] [ex_sol_profile] = Inr [ex_sol_profile\<lparr>txVolume := ''0.00%''\<rparr>]
     \<and> annotate percent2 [ex_swap_sol, ex_untyped] [ex_sol_profile]
         = Inr [ex_sol_profile\<lparr>txVolume := percent2 (1 / 2)\<rparr>]"
    using a b by simp
qed

section \<open>Properties of the main loop\<close>

subsection \<open>At most one hundred records\<close>




lemma ex_get_transactions:
  "get_transactions (ex_history ''A'') 500 = Some (Inl (Exception ''Request failed: timeout''))"
  "get_transactions (ex_history ''B'') 500 = Some (Inr ([], 0))"
  "get_transactions (ex_history ''C'') 500 = Some (Inr ([ex_big], 0))"
  by (simp_all add: get_transactions_def ex_history_def ex_pages ex_page_down_fails ex_lam ex_sig)

lemma ex_profiles:
  "fetch_token_profiles_das ex_assets_sol ex_stake_none = Inr [ex_sol_profile]"
  by (simp add: fetch_token_profiles_das_eq[OF ex_assets_fetch(2)] ex_staking_balance
        das_items_def das_lamports_def sol_entry_def staked_entry_def List.map_filter_simps
        ex_sol_profile_def)


lemma ex_analyze_B:
  "analyze percent2 ex_upstream ''B'' =
     Some (Inr \<lparr>rep_profiles = [ex_sol_profile\<lparr>txVolume := ''0.00%''\<rparr>], rep_total = 0,
                rep_small = 0, rep_count = []\<rparr>)"
proof -
  have r: "resolve_loop ex_details [] 0 [] = Inr []"
    by (subst resolve_loop.simps) simp
  show ?thesis
    by (simp add: analyze_def ex_upstream_def ex_get_transactions ex_profiles r Counter_def)
qed




subsection \<open>A failed acquisition\<close>

lemma analyze_fails:
  "get_transactions (history up addr) 500 = Some (Inl e)
   \<or> (\<exists>txs small. get_transactions (history up addr) 500 = Some (Inr (txs, small))
        \<and> fetch_token_profiles_das (assets up addr) (stakes up addr) = Inl e)
   \<Longrightarrow> analyze percent2 up addr = Some (Inl e)"
  unfolding analyze_def by auto

lemma ex_lines:
  "strip ''A'' = ''A''" "strip ''B'' = ''B''" "strip '' exit'' = ''exit''"
  "lower ''A'' = ''a''" "lower ''B'' = ''b''" "lower ''exit'' = ''exit''"
  by (simp_all add: strip_def lower_def is_space_def)

text \<open>
  C9, as the spec states it, fails: with the inputs \<open>A\<close>, \<open>B\<close>, \<open>n\<close>, \<open>exit\<close>, the
  history of \<open>A\<close> failing on every attempt, the process ends with the exception of \<open>A\<close>
  and has printed no report, though \<open>B\<close>, asked alone, is analysed and reported.
\<close>

theorem main_continues_counterexample:
  "\<forall>percent2.
     main percent2 ex_upstream [''A'', ''B'', ''n'', '' exit'']
       = Some ([], Crashed (Exception ''Request failed: timeout''))
     \<and> main percent2 ex_upstream [''B'', ''n'', '' exit'']
       = Some ([\<lparr>rep_profiles = [ex_sol_profile\<lparr>txVolume := ''0.00%''\<rparr>], rep_total = 0,
                   rep_small = 0, rep_count = []\<rparr>], Exited)"
proof
  fix percent2 :: "real \<Rightarrow> string"
  have a: "analyze percent2 ex_upstream ''A'' = Some (Inl (Exception ''Request failed: timeout''))"
    by (simp add: analyze_def ex_upstream_def ex_get_transactions)
  show "main percent2 ex_upstream [''A'', ''B'', ''n'', '' exit'']
       = Some ([], Crashed (Exception ''Request failed: timeout''))
     \<and> main percent2 ex_upstream [''B'', ''n'', '' exit'']
       = Some ([\<lparr>rep_profiles = [ex_sol_profile\<lparr>txVolume := ''0.00%''\<rparr>], rep_total = 0,
                   rep_small = 0, rep_count = []\<rparr>], Exited)"
    by (simp add: main_def ex_lines a ex_analyze_B)
qed

text \<open>
  C9, amended. When the pagination or the asset fetch of an address raises (its retries
  exhausted), the pass for that address produces no report, and, \<^verbatim>\<open>main\<close> having no
  handler around it, the exception leaves the loop: the process ends with it, the reports
  are those printed before, and none of the remaining inputs is read.
\<close>

theorem main_stops_at_failure:
  assumes "lower (strip line) \<notin> {''exit'', ''quit''}"
    and "get_transactions (history up (strip line)) 500 = Some (Inl e)
         \<or> (\<exists>txs small. get_transactions (history up (strip line)) 500 = Some (Inr (txs, small))
              \<and> fetch_token_profiles_das (assets up (strip line)) (stakes up (strip line)) = Inl e)"
  shows "analyze percent2 up (strip line) = Some (Inl e)
       \<and> main_loop percent2 up (line # rest) reports = Some (reports, Crashed e)"
proof -
  have a: "analyze percent2 up (strip line) = Some (Inl e)"
    using assms(2) by (rule analyze_fails)
  show ?thesis using a assms(1) by (simp add: Let_def)
qed

theorem main_stops_at_failure_witness:
  "\<forall>percent2.
     main_loop percent2 ex_upstream [''A'', ''B'', ''n'', '' exit''] []
       = Some ([], Crashed (Exception ''Request failed: timeout''))"
proof
  fix percent2 :: "real \<Rightarrow> string"
  have h1: "lower (strip ''A'') \<notin> {''exit'', ''quit''}" by (simp add: ex_lines)
  have h2: "get_transactions (history ex_upstream (strip ''A'')) 500
              = Some (Inl (Exception ''Request failed: timeout''))
         \<or> (\<exists>txs small. get_transactions (history ex_upstream (strip ''A'')) 500
                = Some (Inr (txs, small))
              \<and> fetch_token_profiles_das (assets ex_upstream (strip ''A''))
                   (stakes ex_upstream (strip ''A'')) = Inl (Exception ''Request failed: timeout''))"
    by (simp add: ex_lines ex_upstream_def ex_get_transactions)
  show "main_loop percent2 ex_upstream [''A'', ''B'', ''n'', '' exit''] []
       = Some ([], Crashed (Exception ''Request failed: timeout''))"
    using main_stops_at_failure[OF h1 h2, of percent2 "[''B'', ''n'', '' exit'']" "[]"] by simp
qed

end
